theory Spec2Isabelle
  imports Complex_Main "HOL-Library.Char_ord" "HOL-Library.List_Lexorder"
begin

section \<open>Cash-flow forecaster: the projection (utils/cash\_flow\_forecast.py)\<close>

text \<open>
  Amounts are Python numbers (ints from the number inputs, floats from the rates). They
  are modelled as exact reals: rounding of binary floating point is outside the model.

  The variables the projection reads after scenario resolution are collected in one
  record; the names are the source's.
\<close>

record forecast_inputs =
  starting_cash :: real
  min_cash_threshold :: real
  deployment_rate :: real
  inflow_rate :: real
  opex_rate :: real
  forecast_horizon :: nat

text \<open>One entry of \<^verbatim>\<open>forecast_data\<close>; the type of dates is left open.\<close>

record 'd forecast_row =
  Date :: 'd
  Cash_Position :: real
  Deployment :: real
  Inflows :: real
  OpEx :: real
  Net_Flow :: real

text \<open>\<^verbatim>\<open>net_flow_per_period = inflow_rate - deployment_rate - opex_rate\<close>\<close>

definition net_flow_per_period :: "forecast_inputs \<Rightarrow> real" where
  "net_flow_per_period p = inflow_rate p - deployment_rate p - opex_rate p"

text \<open>
  The first metric column: a runway in periods when the net flow is negative and there is
  usable cash, the text ``Below minimum'' when there is none, ``Positive'' with the net
  flow as delta otherwise.
\<close>

datatype runway_metric = Cash_Runway real | Below_minimum | Positive real

definition runway :: "forecast_inputs \<Rightarrow> runway_metric" where
  "runway p =
     (if net_flow_per_period p < 0 then
        (let usable_cash = starting_cash p - min_cash_threshold p in
         if usable_cash > 0 then Cash_Runway (usable_cash / \<bar>net_flow_per_period p\<bar>)
         else Below_minimum)
      else Positive (net_flow_per_period p))"

text \<open>
  \<^verbatim>\<open>ending_cash = starting_cash + (net_flow_per_period * forecast_horizon)\<close>; the metric
  shows \<^verbatim>\<open>max(0, ending_cash)\<close>.
\<close>

definition ending_cash :: "forecast_inputs \<Rightarrow> real" where
  "ending_cash p = starting_cash p + net_flow_per_period p * real (forecast_horizon p)"

definition displayed_ending_cash :: "forecast_inputs \<Rightarrow> real" where
  "displayed_ending_cash p = max 0 (ending_cash p)"

text \<open>
  The body of the loop \<^verbatim>\<open>for date in dates[1:]\<close>: from the cash at the start of the
  period it builds the period's row; the new \<^verbatim>\<open>current_cash\<close> is the row's cash position.
\<close>

definition forecast_period :: "forecast_inputs \<Rightarrow> real \<Rightarrow> 'd \<Rightarrow> 'd forecast_row" where
  "forecast_period p current_cash date =
     (let period_deployment = deployment_rate p;
          period_inflows = inflow_rate p;
          period_opex = opex_rate p;
          period_deployment =
            (if current_cash - period_deployment - period_opex < min_cash_threshold p
             then max 0 (current_cash - min_cash_threshold p - period_opex)
             else period_deployment);
          period_net_flow = period_inflows - period_deployment - period_opex;
          current_cash = current_cash + period_net_flow
      in \<lparr>Date = date, Cash_Position = current_cash, Deployment = period_deployment,
          Inflows = period_inflows, OpEx = period_opex, Net_Flow = period_net_flow\<rparr>)"

fun forecast_loop ::
  "forecast_inputs \<Rightarrow> 'd list \<Rightarrow> real \<Rightarrow> 'd forecast_row list \<Rightarrow> real \<times> 'd forecast_row list"
where
  "forecast_loop p [] current_cash forecast_data = (current_cash, forecast_data)"
| "forecast_loop p (date # dates) current_cash forecast_data =
     (let row = forecast_period p current_cash date
      in forecast_loop p dates (Cash_Position row) (forecast_data @ [row]))"

text \<open>
  The table: the starting point, then one row per date of \<^verbatim>\<open>dates[1:]\<close>. \<open>now\<close> is
  \<^verbatim>\<open>datetime.now()\<close> and \<open>dates\<close> is the \<^verbatim>\<open>pd.date_range\<close> of
  \<^verbatim>\<open>forecast_horizon + 1\<close> periods; both are parameters here.
\<close>

definition forecast_data :: "forecast_inputs \<Rightarrow> 'd \<Rightarrow> 'd list \<Rightarrow> 'd forecast_row list" where
  "forecast_data p now dates =
     snd (forecast_loop p (drop 1 dates) (starting_cash p)
       [\<lparr>Date = now, Cash_Position = starting_cash p, Deployment = 0,
         Inflows = 0, OpEx = 0, Net_Flow = 0\<rparr>])"

text \<open>
  A run in which the throttle never binds: every projected row deploys the scenario's
  rate. (When the source's condition \<^verbatim>\<open>current_cash - period_deployment - period_opex <
  min_cash_threshold\<close> is false in a period, that period's row does so.)
\<close>

definition throttle_never_binds :: "forecast_inputs \<Rightarrow> 'd forecast_row list \<Rightarrow> bool" where
  "throttle_never_binds p rows = list_all (\<lambda>row. Deployment row = deployment_rate p) (drop 1 rows)"

text \<open>
  For the proofs: the rows the loop appends, without the accumulator, and the starting
  point it begins with.
\<close>

fun projection :: "forecast_inputs \<Rightarrow> real \<Rightarrow> 'd list \<Rightarrow> 'd forecast_row list" where
  "projection p current_cash [] = []"
| "projection p current_cash (date # dates) =
     forecast_period p current_cash date #
     projection p (Cash_Position (forecast_period p current_cash date)) dates"

definition start_row :: "forecast_inputs \<Rightarrow> 'd \<Rightarrow> 'd forecast_row" where
  "start_row p now = \<lparr>Date = now, Cash_Position = starting_cash p, Deployment = 0,
         Inflows = 0, OpEx = 0, Net_Flow = 0\<rparr>"

text \<open>
  Concrete runs used below. \<open>scenario\<close> has the page's default starting cash, reserve,
  weekly operating expenses and horizon, with 10000 deployed and 12000 repaid per week.
\<close>

definition scenario :: forecast_inputs where
  "scenario = \<lparr>starting_cash = 500000, min_cash_threshold = 100000, deployment_rate = 10000,
     inflow_rate = 12000, opex_rate = 2500, forecast_horizon = 26\<rparr>"


definition funded :: forecast_inputs where
  "funded = \<lparr>starting_cash = 100000, min_cash_threshold = 100000, deployment_rate = 10000,
     inflow_rate = 12000, opex_rate = 2500, forecast_horizon = 4\<rparr>"

definition drained :: forecast_inputs where
  "drained = \<lparr>starting_cash = 100000, min_cash_threshold = 100000, deployment_rate = 10000,
     inflow_rate = 0, opex_rate = 2500, forecast_horizon = 4\<rparr>"


section \<open>Tables and pandas conventions\<close>

text \<open>
  Rows of the tables as the pages hold them after \<^verbatim>\<open>pd.to_datetime\<close> and
  \<^verbatim>\<open>pd.to_numeric\<close> with \<^verbatim>\<open>errors="coerce"\<close>: a missing value (null, NaN, NaT) is
  \<open>None\<close>. A timestamp is a number of nanoseconds since the epoch. Only the columns
  that the modelled code reads are fields. A transaction type that is missing behaves
  like a type outside every list, so the type is a plain string.
\<close>

record qbo_txn =
  transaction_type :: string
  customer_name :: "string option"
  txn_date :: "int option"
  total_amount :: "real option"

record deal =
  loan_id :: "string option"
  date_created :: "int option"
  amount :: "real option"

record mca_deal =
  deal_number :: "string option"

text \<open>\<^verbatim>\<open>Series.isin(values)\<close>: a missing value is in no list.\<close>

definition isin :: "'a option \<Rightarrow> 'a list \<Rightarrow> bool" where
  "isin v vals = (case v of None \<Rightarrow> False | Some x \<Rightarrow> x \<in> set vals)"

text \<open>\<^verbatim>\<open>Series.sum()\<close> skips missing values; the sum of no values is 0.\<close>

definition series_sum :: "real option list \<Rightarrow> real" where
  "series_sum xs = sum_list (map (\<lambda>v. case v of None \<Rightarrow> 0 | Some x \<Rightarrow> x) xs)"

text \<open>\<^verbatim>\<open>Timedelta.days\<close>: whole days, rounded down.\<close>

definition ns_per_day :: int where
  "ns_per_day = 86400000000000"

definition days :: "int \<Rightarrow> int" where
  "days delta = delta div ns_per_day"

section \<open>Cash-flow forecaster: baseline estimation (utils/cash\_flow\_forecast.py)\<close>

text \<open>
  \<^verbatim>\<open>customer_payments\<close>: payments and receipts, not from the house accounts, with a date.
\<close>

definition customer_payments :: "qbo_txn list \<Rightarrow> qbo_txn list" where
  "customer_payments qbo_df =
     filter (\<lambda>t. transaction_type t \<in> set [''Payment'', ''Receipt'']
                 \<and> \<not> isin (customer_name t) [''CSL'', ''VEEM'']
                 \<and> txn_date t \<noteq> None) qbo_df"

text \<open>\<^verbatim>\<open>total_inflows = customer_payments["total_amount"].abs().sum()\<close>\<close>

definition total_inflows :: "qbo_txn list \<Rightarrow> real" where
  "total_inflows qbo_df =
     series_sum (map (\<lambda>t. map_option abs (total_amount t)) (customer_payments qbo_df))"

text \<open>
  \<^verbatim>\<open>(max_date - min_date).days + 1\<close> for the dates of a column; \<^verbatim>\<open>min()\<close> and \<^verbatim>\<open>max()\<close>
  skip missing dates. The source takes it of a non-empty column only.
\<close>

definition total_days :: "int option list \<Rightarrow> int" where
  "total_days dates =
     (case List.map_filter id dates of
        [] \<Rightarrow> 0
      | d # ds \<Rightarrow>
          (let min_date = fold min ds d; max_date = fold max ds d
           in days (max_date - min_date) + 1))"

text \<open>
  The first block of \<^verbatim>\<open>create_cash_flow_forecast\<close>. The result is
  \<^verbatim>\<open>(weekly_inflow_rate, monthly_inflow_rate, has_qbo_data)\<close>, initially \<open>(0, 0, False)\<close>.
  \<open>None\<close> is \<^verbatim>\<open>qbo_df=None\<close>; the column \<^verbatim>\<open>txn_date\<close> is taken to exist.
\<close>

definition inflow_rates :: "qbo_txn list option \<Rightarrow> real \<times> real \<times> bool" where
  "inflow_rates qbo_df =
     (case qbo_df of
        None \<Rightarrow> (0, 0, False)
      | Some df \<Rightarrow>
          if df \<noteq> [] then
            (if length (customer_payments df) > 0 then
               (let total_days = total_days (map txn_date (customer_payments df)) in
                if total_days > 0 then
                  (total_inflows df / (real_of_int total_days / 7),
                   total_inflows df / (real_of_int total_days / 30.44),
                   True)
                else (0, 0, True))
             else (0, 0, False))
          else (0, 0, False))"

text \<open>
  The second block, for the closed-won deals: \<^verbatim>\<open>(weekly_deployment_rate,
  monthly_deployment_rate)\<close>, or \<open>None\<close> when no deal has a date and the page makes no
  forecast. The amounts are summed as they are, without \<^verbatim>\<open>abs\<close>.
\<close>

definition deployment_rates :: "deal list \<Rightarrow> (real \<times> real) option" where
  "deployment_rates closed_won_df =
     (if closed_won_df \<noteq> [] then
        (let closed_won_df = filter (\<lambda>d. date_created d \<noteq> None) closed_won_df in
         if length closed_won_df > 0 then
           (let deal_total_days = total_days (map date_created closed_won_df);
                total_deployed = series_sum (map amount closed_won_df);
                weekly_deployment_rate =
                  (if deal_total_days > 0
                   then total_deployed / (real_of_int deal_total_days / 7) else 0);
                monthly_deployment_rate =
                  (if deal_total_days > 0
                   then total_deployed / (real_of_int deal_total_days / 30.44) else 0)
            in Some (weekly_deployment_rate, monthly_deployment_rate))
         else None)
      else None)"

text \<open>The calendar date of a timestamp, as a day number.\<close>

definition date_of :: "int \<Rightarrow> int" where
  "date_of ts = ts div ns_per_day"

definition all_on_date :: "int \<Rightarrow> int option list \<Rightarrow> bool" where
  "all_on_date day dates = list_all (\<lambda>d. map_option date_of d = Some day) dates"

text \<open>
  What one transaction adds to \<^verbatim>\<open>total_inflows\<close>, stated row by row: its absolute amount
  (0 when the amount is missing) if it is a payment or a receipt, not from a house
  account, and dated; nothing otherwise.
\<close>

definition inflow_contribution :: "qbo_txn \<Rightarrow> real" where
  "inflow_contribution t =
     (if (transaction_type t = ''Payment'' \<or> transaction_type t = ''Receipt'') \<and>
         customer_name t \<noteq> Some ''CSL'' \<and> customer_name t \<noteq> Some ''VEEM'' \<and>
         txn_date t \<noteq> None
      then (case total_amount t of None \<Rightarrow> 0 | Some a \<Rightarrow> \<bar>a\<bar>) else 0)"

text \<open>
  Concrete transactions and deals used below. All are dated 1970-01-01; the payment of
  Acme and the second deal are at 01:00, the others at midnight.
\<close>

definition acme_invoice :: qbo_txn where
  "acme_invoice = \<lparr>transaction_type = ''Invoice'', customer_name = Some ''Acme'',
      txn_date = Some 0, total_amount = Some 100\<rparr>"

definition acme_payment :: qbo_txn where
  "acme_payment = \<lparr>transaction_type = ''Payment'', customer_name = Some ''Acme'',
      txn_date = Some 3600000000000, total_amount = Some (- 100)\<rparr>"

definition beta_payment :: qbo_txn where
  "beta_payment = \<lparr>transaction_type = ''Payment'', customer_name = Some ''Beta'',
      txn_date = Some 0, total_amount = Some (- 50)\<rparr>"

definition beta_deposit :: qbo_txn where
  "beta_deposit = \<lparr>transaction_type = ''Deposit'', customer_name = Some ''Beta'',
      txn_date = Some 0, total_amount = Some 70\<rparr>"

definition deal_a :: deal where
  "deal_a = \<lparr>loan_id = Some ''L1'', date_created = Some 0, amount = Some 10000\<rparr>"

definition deal_b :: deal where
  "deal_b = \<lparr>loan_id = Some ''L2'', date_created = Some 3600000000000, amount = Some 5000\<rparr>"

section \<open>Risk scorer (pages/qbo\_dashboard.py)\<close>

text \<open>
  The scores are numpy floats. Division by zero does not raise there: it gives an
  infinity or NaN, which then flows through the arithmetic. The model keeps these
  special values and takes finite values as exact reals; every zero that occurs is a
  sum of absolute values, that is \<open>+0.0\<close>.
\<close>

datatype pyfloat = Fin real | PosInf | NegInf | NaN

definition inf_of_sign :: "real \<Rightarrow> pyfloat" where
  "inf_of_sign s = (if s > 0 then PosInf else if s < 0 then NegInf else NaN)"

fun pf_sign :: "pyfloat \<Rightarrow> real" where
  "pf_sign (Fin x) = sgn x"
| "pf_sign PosInf = 1"
| "pf_sign NegInf = - 1"
| "pf_sign NaN = 0"

fun pf_neg :: "pyfloat \<Rightarrow> pyfloat" where
  "pf_neg (Fin x) = Fin (- x)"
| "pf_neg PosInf = NegInf"
| "pf_neg NegInf = PosInf"
| "pf_neg NaN = NaN"

fun pf_add :: "pyfloat \<Rightarrow> pyfloat \<Rightarrow> pyfloat" where
  "pf_add (Fin x) (Fin y) = Fin (x + y)"
| "pf_add NaN b = NaN"
| "pf_add a NaN = NaN"
| "pf_add PosInf NegInf = NaN"
| "pf_add NegInf PosInf = NaN"
| "pf_add PosInf b = PosInf"
| "pf_add a PosInf = PosInf"
| "pf_add NegInf b = NegInf"
| "pf_add a NegInf = NegInf"

definition pf_sub :: "pyfloat \<Rightarrow> pyfloat \<Rightarrow> pyfloat" where
  "pf_sub a b = pf_add a (pf_neg b)"

fun pf_mul :: "pyfloat \<Rightarrow> pyfloat \<Rightarrow> pyfloat" where
  "pf_mul (Fin x) (Fin y) = Fin (x * y)"
| "pf_mul NaN b = NaN"
| "pf_mul a NaN = NaN"
| "pf_mul a b = inf_of_sign (pf_sign a * pf_sign b)"

fun pf_div :: "pyfloat \<Rightarrow> pyfloat \<Rightarrow> pyfloat" where
  "pf_div (Fin x) (Fin y) = (if y \<noteq> 0 then Fin (x / y) else inf_of_sign (sgn x))"
| "pf_div NaN b = NaN"
| "pf_div a NaN = NaN"
| "pf_div (Fin x) b = Fin 0"
| "pf_div a (Fin y) = inf_of_sign (pf_sign a * (if y < 0 then - 1 else 1))"
| "pf_div a b = NaN"

fun pf_lt :: "pyfloat \<Rightarrow> pyfloat \<Rightarrow> bool" where
  "pf_lt (Fin x) (Fin y) = (x < y)"
| "pf_lt NaN b = False"
| "pf_lt a NaN = False"
| "pf_lt a NegInf = False"
| "pf_lt PosInf b = False"
| "pf_lt a b = True"

text \<open>\<^verbatim>\<open>np.where(cond, a, b)\<close>, for one element: both values are computed, one is taken.\<close>

definition np_where :: "bool \<Rightarrow> 'a \<Rightarrow> 'a \<Rightarrow> 'a" where
  "np_where cond a b = (if cond then a else b)"

text \<open>\<^verbatim>\<open>Series.max()\<close> of a column of finite numbers; NaN for an empty column.\<close>

fun series_max :: "real list \<Rightarrow> pyfloat" where
  "series_max [] = NaN"
| "series_max (x # xs) = Fin (fold max xs x)"

text \<open>
  \<^verbatim>\<open>risk_df\<close>: invoices and payments, not from the house accounts, amounts made absolute.
\<close>

definition risk_df :: "qbo_txn list \<Rightarrow> qbo_txn list" where
  "risk_df df =
     map (\<lambda>t. t\<lparr>total_amount := map_option abs (total_amount t)\<rparr>)
       (filter (\<lambda>t. \<not> isin (customer_name t) [''CSL'', ''VEEM''])
          (filter (\<lambda>t. transaction_type t \<in> set [''Invoice'', ''Payment'']) df))"

text \<open>
  \<^verbatim>\<open>payment_behavior\<close>: the pivot table of summed amounts, one row per customer (sorted),
  one column per transaction type, 0 where a customer has no transaction of a type. Rows
  without a customer name are in no group. The scoring runs only if both columns
  \<^verbatim>\<open>Invoice\<close> and \<^verbatim>\<open>Payment\<close> exist; \<open>None\<close> when it does not run.
\<close>

record payment_row =
  customer :: string
  Invoice :: real
  Payment :: real

definition pivot_sum :: "qbo_txn list \<Rightarrow> string \<Rightarrow> string \<Rightarrow> real" where
  "pivot_sum rows c ty =
     series_sum (map total_amount
       (filter (\<lambda>t. customer_name t = Some c \<and> transaction_type t = ty) rows))"

definition payment_behavior :: "qbo_txn list \<Rightarrow> payment_row list option" where
  "payment_behavior df =
     (let rows = filter (\<lambda>t. customer_name t \<noteq> None) (risk_df df);
          columns = remdups (map transaction_type rows)
      in if ''Invoice'' \<in> set columns \<and> ''Payment'' \<in> set columns then
           Some (map (\<lambda>c. \<lparr>customer = c, Invoice = pivot_sum rows c ''Invoice'',
                           Payment = pivot_sum rows c ''Payment''\<rparr>)
                   (sort (remdups (List.map_filter customer_name rows))))
         else None)"

definition payment_ratio :: "payment_row \<Rightarrow> pyfloat" where
  "payment_ratio r =
     np_where (Invoice r > 0) (pf_div (Fin (Payment r)) (Fin (Invoice r))) (Fin 0)"

definition outstanding_balance :: "payment_row \<Rightarrow> real" where
  "outstanding_balance r = Invoice r - Payment r"

text \<open>
  The score of row \<open>r\<close> of the table \<open>pb\<close> (the source's \<^verbatim>\<open>payment_behavior\<close>);
  \<^verbatim>\<open>Invoice.max()\<close> is over the whole table.
\<close>

definition risk_score :: "payment_row list \<Rightarrow> payment_row \<Rightarrow> pyfloat" where
  "risk_score pb r =
     pf_add
       (pf_add
          (pf_mul (pf_sub (Fin 1) (payment_ratio r)) (Fin 0.4))
          (pf_mul (pf_div (Fin (outstanding_balance r))
                          (series_max (map Invoice pb))) (Fin 0.3)))
       (np_where (pf_lt (payment_ratio r) (Fin 0.5)) (Fin 0.3) (Fin 0))"

text \<open>
  \<^verbatim>\<open>pd.cut(score, bins=[0, 0.2, 0.5, 1.0], labels=[...])\<close>: the bins are the intervals
  \<open>(0, 0.2]\<close>, \<open>(0.2, 0.5]\<close> and \<open>(0.5, 1.0]\<close>, open on the left. A value in no bin, and
  NaN, get no category (NaN in the column), here \<open>None\<close>.
\<close>

datatype risk_label = Low_Risk | Medium_Risk | High_Risk

definition cut :: "pyfloat \<Rightarrow> risk_label option" where
  "cut x =
     (case x of
        Fin s \<Rightarrow>
          if 0 < s \<and> s \<le> 0.2 then Some Low_Risk
          else if 0.2 < s \<and> s \<le> 0.5 then Some Medium_Risk
          else if 0.5 < s \<and> s \<le> 1.0 then Some High_Risk
          else None
      | _ \<Rightarrow> None)"

definition risk_category :: "payment_row list \<Rightarrow> payment_row \<Rightarrow> risk_label option" where
  "risk_category pb r = cut (risk_score pb r)"

text \<open>Rows of \<^verbatim>\<open>payment_behavior\<close> for the transactions above.\<close>

definition acme_paid :: payment_row where
  "acme_paid = \<lparr>customer = ''Acme'', Invoice = 100, Payment = 100\<rparr>"

definition acme_unpaid :: payment_row where
  "acme_unpaid = \<lparr>customer = ''Acme'', Invoice = 100, Payment = 0\<rparr>"

definition beta_row :: payment_row where
  "beta_row = \<lparr>customer = ''Beta'', Invoice = 0, Payment = 50\<rparr>"

section \<open>Joining deals to MCA deals (scripts/combine\_hubspot\_mca.py)\<close>

text \<open>\<^verbatim>\<open>astype(str)\<close> on a column of strings: a null becomes the text \<^verbatim>\<open>None\<close>.\<close>

definition astype_str :: "string option \<Rightarrow> string" where
  "astype_str v = (case v of None \<Rightarrow> ''None'' | Some s \<Rightarrow> s)"

text \<open>
  \<^verbatim>\<open>combine_deals\<close>: deals with a null \<^verbatim>\<open>loan_id\<close> are dropped, both keys are made strings,
  and the tables are inner-joined on \<^verbatim>\<open>loan_id = deal_number\<close>. A joined row is the pair
  of its two source rows (the dropped columns are not among the modelled ones).
\<close>

definition combine_deals :: "deal list \<Rightarrow> mca_deal list \<Rightarrow> (deal \<times> mca_deal) list" where
  "combine_deals deals mca =
     (let deals = filter (\<lambda>d. loan_id d \<noteq> None) deals;
          deals = map (\<lambda>d. d\<lparr>loan_id := Some (astype_str (loan_id d))\<rparr>) deals;
          mca = map (\<lambda>m. m\<lparr>deal_number := Some (astype_str (deal_number m))\<rparr>) mca
      in concat (map (\<lambda>d. map (Pair d) (filter (\<lambda>m. loan_id d = deal_number m) mca)) deals))"

text \<open>
  The audit page's test for a missing loan id (pages/audit.py): null, empty, or blank
  after \<^verbatim>\<open>strip()\<close>.
\<close>

definition is_space :: "char \<Rightarrow> bool" where
  "is_space c = (c \<in> set [CHR '' '', CHR 0x09, CHR 0x0A, CHR 0x0B, CHR 0x0C, CHR 0x0D,
                           CHR 0x1C, CHR 0x1D, CHR 0x1E, CHR 0x1F])"

definition strip :: "string \<Rightarrow> string" where
  "strip s = rev (dropWhile is_space (rev (dropWhile is_space s)))"

definition missing_loan_id :: "string option \<Rightarrow> bool" where
  "missing_loan_id v = (v = None \<or> v = Some '''' \<or> strip (astype_str v) = '''')"

text \<open>A deal and an MCA deal whose keys are the empty string.\<close>

definition blank_deal :: deal where
  "blank_deal = \<lparr>loan_id = Some '''', date_created = Some 0, amount = Some 10000\<rparr>"

definition blank_mca :: mca_deal where
  "blank_mca = \<lparr>deal_number = Some ''''\<rparr>"

section \<open>Properties of the projection\<close>

subsection \<open>The loop and its rows\<close>

lemma forecast_loop_projection:
  "snd (forecast_loop p dates c acc) = acc @ projection p c dates"
  by (induction dates arbitrary: c acc) (simp_all add: Let_def)

lemma forecast_data_projection:
  "forecast_data p now dates = start_row p now # projection p (starting_cash p) (drop 1 dates)"
  by (simp add: forecast_data_def forecast_loop_projection start_row_def)

lemma length_projection: "length (projection p c dates) = length dates"
  by (induction dates arbitrary: c) simp_all

lemma length_forecast_data: "length (forecast_data p now dates) = Suc (length dates - 1)"
  by (simp add: forecast_data_projection length_projection)

lemma forecast_period_net_flow:
  "Net_Flow (forecast_period p c d) =
     Inflows (forecast_period p c d) - Deployment (forecast_period p c d)
       - OpEx (forecast_period p c d)"
  by (simp add: forecast_period_def Let_def)

lemma forecast_period_cash:
  "Cash_Position (forecast_period p c d) = c + Net_Flow (forecast_period p c d)"
  by (simp add: forecast_period_def Let_def)

lemma forecast_period_passes_through:
  "Inflows (forecast_period p c d) = inflow_rate p \<and> OpEx (forecast_period p c d) = opex_rate p"
  by (simp add: forecast_period_def Let_def)

lemma forecast_period_deployment_nonneg:
  "0 \<le> deployment_rate p \<Longrightarrow> 0 \<le> Deployment (forecast_period p c d)"
  by (simp add: forecast_period_def Let_def)

lemma projection_chain:
  "i < length dates \<Longrightarrow>
   Net_Flow (projection p c dates ! i) =
     Inflows (projection p c dates ! i) - Deployment (projection p c dates ! i)
       - OpEx (projection p c dates ! i) \<and>
   Cash_Position (projection p c dates ! i) =
     (if i = 0 then c else Cash_Position (projection p c dates ! (i - 1)))
       + Net_Flow (projection p c dates ! i)"
proof (induction dates arbitrary: c i)
  case Nil
  then show ?case by simp
next
  case (Cons d ds)
  show ?case
  proof (cases i)
    case 0
    then show ?thesis
      using forecast_period_net_flow [of p c d] forecast_period_cash [of p c d] by simp
  next
    case (Suc j)
    with Cons.prems have j: "j < length ds" by simp
    from Cons.IH [OF j, of "Cash_Position (forecast_period p c d)"] Suc
    show ?thesis by (cases j) simp_all
  qed
qed

subsection \<open>Net flow identity\<close>

text \<open>
  Claim C2. Every row the loop records (index \<open>i > 0\<close> of the table) has
  Net Flow = Inflows - Deployment - OpEx, and its Cash Position is the previous row's
  Cash Position plus its Net Flow, for all inputs and all date ranges.
\<close>

theorem net_flow_identity:
  assumes "0 < i" and "i < length (forecast_data p now dates)"
  shows "Net_Flow (forecast_data p now dates ! i) =
           Inflows (forecast_data p now dates ! i) - Deployment (forecast_data p now dates ! i)
             - OpEx (forecast_data p now dates ! i) \<and>
         Cash_Position (forecast_data p now dates ! i) =
           Cash_Position (forecast_data p now dates ! (i - 1))
             + Net_Flow (forecast_data p now dates ! i)"
proof -
  obtain j where i: "i = Suc j" using assms(1) by (cases i) simp_all
  have j: "j < length (drop 1 dates)"
    using assms(2) by (simp add: i forecast_data_projection length_projection)
  show ?thesis
    using projection_chain [OF j, of p "starting_cash p"]
    by (cases j) (simp_all add: i forecast_data_projection start_row_def)
qed

theorem net_flow_identity_witness:
  "(0::nat) < 2 \<and> 2 < length (forecast_data funded (0::nat) [0, 1, 2, 3, 4]) \<and>
   Net_Flow (forecast_data funded (0::nat) [0, 1, 2, 3, 4] ! 2) = 2500 \<and>
   Net_Flow (forecast_data funded (0::nat) [0, 1, 2, 3, 4] ! 2) =
     Inflows (forecast_data funded (0::nat) [0, 1, 2, 3, 4] ! 2)
       - Deployment (forecast_data funded (0::nat) [0, 1, 2, 3, 4] ! 2)
       - OpEx (forecast_data funded (0::nat) [0, 1, 2, 3, 4] ! 2) \<and>
   Cash_Position (forecast_data funded (0::nat) [0, 1, 2, 3, 4] ! 2) =
     Cash_Position (forecast_data funded (0::nat) [0, 1, 2, 3, 4] ! (2 - 1))
       + Net_Flow (forecast_data funded (0::nat) [0, 1, 2, 3, 4] ! 2)"
proof -
  have pos: "(0::nat) < 2" by simp
  have len: "2 < length (forecast_data funded (0::nat) [0, 1, 2, 3, 4])"
    by (simp add: length_forecast_data)
  have val: "Net_Flow (forecast_data funded (0::nat) [0, 1, 2, 3, 4] ! 2) = 2500"
    by (simp add: forecast_data_def funded_def forecast_period_def Let_def)
  from net_flow_identity [OF pos len] pos len val show ?thesis by simp
qed

subsection \<open>Cash floor\<close>

text \<open>
  Only deployment is throttled. A period ends at or above the reserve exactly when that
  is feasible without deploying: when the cash before it plus inflows minus operating
  expenses reaches the reserve.
\<close>

lemma forecast_period_floor:
  assumes "0 \<le> inflow_rate p"
    and "min_cash_threshold p \<le> c + inflow_rate p - opex_rate p"
  shows "min_cash_threshold p \<le> Cash_Position (forecast_period p c d)"
  using assms by (simp add: forecast_period_def Let_def max_def)

lemma forecast_period_below_floor:
  assumes "0 \<le> deployment_rate p"
    and "c + inflow_rate p - opex_rate p < min_cash_threshold p"
  shows "Cash_Position (forecast_period p c d) < min_cash_threshold p"
  using assms by (simp add: forecast_period_def Let_def max_def)

lemma projection_floor:
  assumes "0 \<le> inflow_rate p" and "opex_rate p \<le> inflow_rate p"
  shows "min_cash_threshold p \<le> c \<Longrightarrow> row \<in> set (projection p c dates) \<Longrightarrow>
         min_cash_threshold p \<le> Cash_Position row"
proof (induction dates arbitrary: c)
  case Nil
  then show ?case by simp
next
  case (Cons d ds)
  have "min_cash_threshold p \<le> c + inflow_rate p - opex_rate p"
    using Cons.prems(1) assms(2) by simp
  then have step: "min_cash_threshold p \<le> Cash_Position (forecast_period p c d)"
    using assms(1) by (rule forecast_period_floor [rotated])
  from Cons.prems(2) consider "row = forecast_period p c d"
    | "row \<in> set (projection p (Cash_Position (forecast_period p c d)) ds)"
    by auto
  then show ?case
  proof cases
    case 1
    with step show ?thesis by simp
  next
    case 2
    with Cons.IH [OF step] show ?thesis .
  qed
qed

text \<open>
  Claim C1, as amended. If \<open>starting_cash \<ge> min_cash_threshold\<close>, inflows are
  non-negative and operating expenses do not exceed inflows (\<open>opex_rate \<le> inflow_rate\<close>),
  then every recorded cash position is at or above \<open>min_cash_threshold\<close>, for every
  deployment rate. Without the bound on operating expenses the floor can be broken: the
  throttle reduces deployment to zero at most and never touches operating expenses.
\<close>

theorem cash_floor:
  assumes "min_cash_threshold p \<le> starting_cash p"
    and "0 \<le> inflow_rate p" and "opex_rate p \<le> inflow_rate p"
    and "i < length (forecast_data p now dates)"
  shows "min_cash_threshold p \<le> Cash_Position (forecast_data p now dates ! i)"
proof (cases i)
  case 0
  with assms(1) show ?thesis by (simp add: forecast_data_projection start_row_def)
next
  case (Suc j)
  with assms(4) have "j < length (projection p (starting_cash p) (drop 1 dates))"
    by (simp add: forecast_data_projection)
  then have "projection p (starting_cash p) (drop 1 dates) ! j
               \<in> set (projection p (starting_cash p) (drop 1 dates))"
    by (rule nth_mem)
  from projection_floor [OF assms(2,3) assms(1) this] Suc
  show ?thesis by (simp add: forecast_data_projection)
qed

text \<open>
  The run \<open>funded\<close> starts at the reserve, so the throttle is active from the first
  period on; its last row is still at or above the reserve.
\<close>

theorem cash_floor_witness:
  "min_cash_threshold funded \<le> starting_cash funded \<and> 0 \<le> inflow_rate funded \<and>
   opex_rate funded \<le> inflow_rate funded \<and>
   4 < length (forecast_data funded (0::nat) [0, 1, 2, 3, 4]) \<and>
   Deployment (forecast_data funded (0::nat) [0, 1, 2, 3, 4] ! 4) = 9500 \<and>
   min_cash_threshold funded \<le> Cash_Position (forecast_data funded (0::nat) [0, 1, 2, 3, 4] ! 4)"
proof -
  have h: "min_cash_threshold funded \<le> starting_cash funded" "0 \<le> inflow_rate funded"
    "opex_rate funded \<le> inflow_rate funded"
    by (simp_all add: funded_def)
  have l: "4 < length (forecast_data funded (0::nat) [0, 1, 2, 3, 4])"
    by (simp add: length_forecast_data)
  have d: "Deployment (forecast_data funded (0::nat) [0, 1, 2, 3, 4] ! 4) = 9500"
    by (simp add: forecast_data_def funded_def forecast_period_def Let_def)
  from cash_floor [OF h l] h l d show ?thesis by simp
qed

text \<open>
  The claim as stated fails: in the run \<open>drained\<close> (starting cash equal to the reserve, all
  rates non-negative, no inflows, operating expenses 2500) deployment is throttled to 0
  in the first period and the cash position falls to 97500, below the reserve of 100000.
\<close>

theorem cash_floor_counterexample:
  "min_cash_threshold drained \<le> starting_cash drained \<and>
   0 \<le> deployment_rate drained \<and> 0 \<le> inflow_rate drained \<and> 0 \<le> opex_rate drained \<and>
   Deployment (forecast_data drained (0::nat) [0, 1, 2, 3, 4] ! 1) = 0 \<and>
   Cash_Position (forecast_data drained (0::nat) [0, 1, 2, 3, 4] ! 1) = 97500 \<and>
   Cash_Position (forecast_data drained (0::nat) [0, 1, 2, 3, 4] ! 1)
     < min_cash_threshold drained - 1"
  by (simp add: forecast_data_def drained_def forecast_period_def Let_def)

subsection \<open>The default scenario\<close>

text \<open>
  Claim C8. With deployment 10000, inflows 12000 and operating expenses 2500 per week,
  starting cash 500000 and reserve 100000: the net flow per period is -500, the runway
  metric is 400000 / 500 = 800 weeks, and the ending cash over a horizon of 26 weeks is
  500000 + 26 * (-500) = 487000, which is also the value displayed.
\<close>

theorem scenario_metrics:
  "net_flow_per_period scenario = - 500 \<and>
   runway scenario = Cash_Runway 800 \<and>
   ending_cash scenario = 487000 \<and>
   displayed_ending_cash scenario = 487000"
  by (simp add: scenario_def net_flow_per_period_def runway_def ending_cash_def
        displayed_ending_cash_def)

subsection \<open>Headline ending cash against the projection table\<close>

lemma forecast_period_unconstrained:
  "\<not> c - deployment_rate p - opex_rate p < min_cash_threshold p \<Longrightarrow>
   Deployment (forecast_period p c d) = deployment_rate p"
  by (simp add: forecast_period_def Let_def)



text \<open>
  When the source's condition for constraining deployment is false at the start of every
  period, the throttle never binds.
\<close>

lemma projection_unconstrained:
  "Cash_Position row0 = c \<Longrightarrow>
   list_all (\<lambda>row. \<not> Cash_Position row - deployment_rate p - opex_rate p < min_cash_threshold p)
     (butlast (row0 # projection p c dates)) \<Longrightarrow>
   list_all (\<lambda>row. Deployment row = deployment_rate p) (projection p c dates)"
proof (induction dates arbitrary: c row0)
  case Nil
  then show ?case by simp
next
  case (Cons d ds)
  from Cons.prems have here: "\<not> c - deployment_rate p - opex_rate p < min_cash_threshold p"
    and rest: "list_all (\<lambda>row. \<not> Cash_Position row - deployment_rate p - opex_rate p
                                 < min_cash_threshold p)
                 (butlast (forecast_period p c d
                    # projection p (Cash_Position (forecast_period p c d)) ds))"
    by simp_all
  from here have "Deployment (forecast_period p c d) = deployment_rate p"
    by (rule forecast_period_unconstrained)
  moreover from Cons.IH [OF refl rest]
  have "list_all (\<lambda>row. Deployment row = deployment_rate p)
          (projection p (Cash_Position (forecast_period p c d)) ds)" .
  ultimately show ?case by simp
qed

lemma unconstrained_run:
  assumes "list_all (\<lambda>row. \<not> Cash_Position row - deployment_rate p - opex_rate p
                              < min_cash_threshold p)
             (butlast (forecast_data p now dates))"
  shows "throttle_never_binds p (forecast_data p now dates)"
proof -
  have "Cash_Position (start_row p now) = starting_cash p" by (simp add: start_row_def)
  from projection_unconstrained [OF this assms [unfolded forecast_data_projection]]
  show ?thesis by (simp add: throttle_never_binds_def forecast_data_projection)
qed



section \<open>Properties of the baseline estimation\<close>

subsection \<open>The span of a column of dates\<close>

lemma same_day_span:
  fixes a b D :: int
  assumes "0 < D" and "a div D = b div D" and "a \<le> b"
  shows "(b - a) div D = 0"
proof -
  have ea: "a = D * (a div D) + a mod D" by simp
  have eb: "b = D * (a div D) + b mod D" using assms(2) by simp
  have "0 \<le> a mod D" "b mod D < D"
    using assms(1) by simp_all
  with ea eb assms(3) have "0 \<le> b - a" "b - a < D" by linarith+
  then show ?thesis by (rule div_pos_pos_trivial)
qed

lemma fold_min_Min: "fold min ds (d::int) = Min (set (d # ds))"
  by (simp only: Min.set_eq_fold)

lemma fold_max_Max: "fold max ds (d::int) = Max (set (d # ds))"
  by (simp only: Max.set_eq_fold)

lemma set_map_filter_id: "set (List.map_filter id xs) = {x. Some x \<in> set xs}"
  by (induction xs) (auto simp: List.map_filter_simps split: option.splits)

lemma total_days_same_date:
  assumes "dates \<noteq> []" and "all_on_date day dates"
  shows "total_days dates = 1"
proof -
  from assms(2) have some: "map_option date_of d = Some day" if "d \<in> set dates" for d
    using that by (simp add: all_on_date_def list_all_iff)
  obtain d0 rest where dates: "dates = d0 # rest" using assms(1) by (cases dates) simp_all
  from some [of d0] obtain t where d0: "d0 = Some t" by (cases d0) (simp_all add: dates)
  define ts where "ts = List.map_filter id rest"
  have ts: "List.map_filter id dates = t # ts"
    by (simp add: dates d0 ts_def List.map_filter_simps)
  have on_day: "date_of x = day" if "x \<in> set (t # ts)" for x
  proof -
    from that have "Some x \<in> set dates"
      unfolding ts [symmetric] set_map_filter_id by simp
    from some [OF this] show ?thesis by simp
  qed
  have fin: "finite (set (t # ts))" "set (t # ts) \<noteq> {}" by simp_all
  have mn: "Min (set (t # ts)) \<in> set (t # ts)" using fin by (rule Min_in)
  have mx: "Max (set (t # ts)) \<in> set (t # ts)" using fin by (rule Max_in)
  have le: "Min (set (t # ts)) \<le> Max (set (t # ts))"
    using fin(1) mx by (rule Min_le)
  have "date_of (Min (set (t # ts))) = date_of (Max (set (t # ts)))"
    using on_day [OF mn] on_day [OF mx] by simp
  then have "Min (set (t # ts)) div ns_per_day = Max (set (t # ts)) div ns_per_day"
    by (simp only: date_of_def)
  moreover have "0 < ns_per_day" by (simp add: ns_per_day_def)
  ultimately have "(Max (set (t # ts)) - Min (set (t # ts))) div ns_per_day = 0"
    using le by (intro same_day_span)
  then show ?thesis
    by (simp only: total_days_def ts list.case Let_def fold_min_Min fold_max_Max days_def)
qed

lemma inflow_rates_same_date:
  assumes "customer_payments df \<noteq> []"
    and "all_on_date day (map txn_date (customer_payments df))"
  shows "inflow_rates (Some df) = (7 * total_inflows df, 30.44 * total_inflows df, True)"
proof -
  from assms(1) have df: "df \<noteq> []" by (auto simp: customer_payments_def)
  from assms(1) have "map txn_date (customer_payments df) \<noteq> []" by simp
  then have "total_days (map txn_date (customer_payments df)) = 1"
    using assms(2) by (rule total_days_same_date)
  with df assms(1) show ?thesis by (simp add: inflow_rates_def)
qed

lemma deployment_rates_same_date:
  assumes "filter (\<lambda>d. date_created d \<noteq> None) closed_won_df \<noteq> []"
    and "all_on_date day
           (map date_created (filter (\<lambda>d. date_created d \<noteq> None) closed_won_df))"
  shows "deployment_rates closed_won_df =
           Some (7 * series_sum (map amount
                       (filter (\<lambda>d. date_created d \<noteq> None) closed_won_df)),
                 30.44 * series_sum (map amount
                       (filter (\<lambda>d. date_created d \<noteq> None) closed_won_df)))"
proof -
  from assms(1) have df: "closed_won_df \<noteq> []" by auto
  from assms(1)
  have "map date_created (filter (\<lambda>d. date_created d \<noteq> None) closed_won_df) \<noteq> []"
    by simp
  then have
    "total_days (map date_created (filter (\<lambda>d. date_created d \<noteq> None) closed_won_df)) = 1"
    using assms(2) by (rule total_days_same_date)
  with df assms(1) show ?thesis by (simp add: deployment_rates_def Let_def)
qed

subsection \<open>Events on one date\<close>

text \<open>
  Claim C5, as amended. When the customer payments are not empty and all fall on one
  date, the span counts as one day (\<open>total_days = 1\<close>, so nothing is divided by zero) and
  the weekly inflow rate is 7 times, the monthly inflow rate 30.44 times the total
  amount. The same holds for the deployment rates of dated closed-won deals that all
  fall on one date.
\<close>

theorem same_date_rates:
  "(customer_payments df \<noteq> [] \<and> all_on_date day (map txn_date (customer_payments df)) \<longrightarrow>
      total_days (map txn_date (customer_payments df)) = 1 \<and>
      inflow_rates (Some df) = (7 * total_inflows df, 30.44 * total_inflows df, True)) \<and>
   (filter (\<lambda>d. date_created d \<noteq> None) closed_won_df \<noteq> [] \<and>
    all_on_date day' (map date_created (filter (\<lambda>d. date_created d \<noteq> None) closed_won_df)) \<longrightarrow>
      total_days (map date_created (filter (\<lambda>d. date_created d \<noteq> None) closed_won_df)) = 1 \<and>
      deployment_rates closed_won_df =
        Some (7 * series_sum (map amount
                    (filter (\<lambda>d. date_created d \<noteq> None) closed_won_df)),
              30.44 * series_sum (map amount
                    (filter (\<lambda>d. date_created d \<noteq> None) closed_won_df))))"
proof (intro conjI impI)
  assume "customer_payments df \<noteq> [] \<and>
          all_on_date day (map txn_date (customer_payments df))"
  then have ne: "customer_payments df \<noteq> []"
    and od: "all_on_date day (map txn_date (customer_payments df))"
    by simp_all
  from ne have "map txn_date (customer_payments df) \<noteq> []" by simp
  then show "total_days (map txn_date (customer_payments df)) = 1"
    using od by (rule total_days_same_date)
  from ne od
  show "inflow_rates (Some df) = (7 * total_inflows df, 30.44 * total_inflows df, True)"
    by (rule inflow_rates_same_date)
next
  assume "filter (\<lambda>d. date_created d \<noteq> None) closed_won_df \<noteq> [] \<and>
    all_on_date day' (map date_created (filter (\<lambda>d. date_created d \<noteq> None) closed_won_df))"
  then have ne: "filter (\<lambda>d. date_created d \<noteq> None) closed_won_df \<noteq> []"
    and od: "all_on_date day'
               (map date_created (filter (\<lambda>d. date_created d \<noteq> None) closed_won_df))"
    by simp_all
  from ne have "map date_created (filter (\<lambda>d. date_created d \<noteq> None) closed_won_df) \<noteq> []"
    by simp
  then show
    "total_days (map date_created (filter (\<lambda>d. date_created d \<noteq> None) closed_won_df)) = 1"
    using od by (rule total_days_same_date)
  from ne od show "deployment_rates closed_won_df =
        Some (7 * series_sum (map amount
                    (filter (\<lambda>d. date_created d \<noteq> None) closed_won_df)),
              30.44 * series_sum (map amount
                    (filter (\<lambda>d. date_created d \<noteq> None) closed_won_df)))"
    by (rule deployment_rates_same_date)
qed

theorem same_date_rates_witness:
  "customer_payments [acme_payment, beta_payment] \<noteq> [] \<and>
   all_on_date 0 (map txn_date (customer_payments [acme_payment, beta_payment])) \<and>
   total_inflows [acme_payment, beta_payment] = 150 \<and>
   inflow_rates (Some [acme_payment, beta_payment]) = (1050, 4566, True) \<and>
   filter (\<lambda>d. date_created d \<noteq> None) [deal_a, deal_b] \<noteq> [] \<and>
   all_on_date 0 (map date_created (filter (\<lambda>d. date_created d \<noteq> None) [deal_a, deal_b])) \<and>
   deployment_rates [deal_a, deal_b] = Some (105000, 456600)"
proof -
  have a: "customer_payments [acme_payment, beta_payment] \<noteq> []"
    by (simp add: customer_payments_def acme_payment_def beta_payment_def isin_def)
  have b: "all_on_date 0 (map txn_date (customer_payments [acme_payment, beta_payment]))"
    by (simp add: customer_payments_def acme_payment_def beta_payment_def isin_def
          all_on_date_def date_of_def ns_per_day_def)
  have c: "total_inflows [acme_payment, beta_payment] = 150"
    by (simp add: total_inflows_def customer_payments_def acme_payment_def beta_payment_def
          isin_def series_sum_def)
  have d: "filter (\<lambda>d. date_created d \<noteq> None) [deal_a, deal_b] \<noteq> []"
    by (simp add: deal_a_def)
  have e: "all_on_date 0
             (map date_created (filter (\<lambda>d. date_created d \<noteq> None) [deal_a, deal_b]))"
    by (simp add: deal_a_def deal_b_def all_on_date_def date_of_def ns_per_day_def)
  have f: "series_sum (map amount (filter (\<lambda>d. date_created d \<noteq> None) [deal_a, deal_b])) = 15000"
    by (simp add: deal_a_def deal_b_def series_sum_def)
  from same_date_rates
         [where df = "[acme_payment, beta_payment]" and day = 0
            and closed_won_df = "[deal_a, deal_b]" and day' = 0]
    a b c d e f show ?thesis by simp
qed

text \<open>
  The claim as stated fails: one payment of 100 gives a weekly rate of 700 and a monthly
  rate of 3044, not the total amount 100.
\<close>

theorem same_date_rates_counterexample:
  "customer_payments [acme_payment] \<noteq> [] \<and>
   all_on_date 0 (map txn_date (customer_payments [acme_payment])) \<and>
   total_inflows [acme_payment] = 100 \<and>
   inflow_rates (Some [acme_payment]) = (700, 3044, True) \<and>
   fst (inflow_rates (Some [acme_payment])) \<noteq> total_inflows [acme_payment] \<and>
   fst (snd (inflow_rates (Some [acme_payment]))) \<noteq> total_inflows [acme_payment]"
  by (simp add: customer_payments_def acme_payment_def isin_def all_on_date_def date_of_def
        total_inflows_def series_sum_def inflow_rates_def total_days_def List.map_filter_simps
        days_def ns_per_day_def)

subsection \<open>The transactions that count as inflows\<close>

lemma customer_payments_iff:
  "t \<in> set (customer_payments df) \<longleftrightarrow>
     t \<in> set df \<and> (transaction_type t = ''Payment'' \<or> transaction_type t = ''Receipt'') \<and>
     customer_name t \<noteq> Some ''CSL'' \<and> customer_name t \<noteq> Some ''VEEM'' \<and>
     txn_date t \<noteq> None"
  by (cases "customer_name t") (auto simp: customer_payments_def isin_def)

lemma total_inflows_Cons:
  "total_inflows (t # df) = inflow_contribution t + total_inflows df"
  by (cases "customer_name t"; cases "total_amount t")
     (auto simp: total_inflows_def customer_payments_def series_sum_def isin_def
        inflow_contribution_def)

lemma total_inflows_sum: "total_inflows df = sum_list (map inflow_contribution df)"
proof (induction df)
  case Nil
  show ?case by (simp add: total_inflows_def customer_payments_def series_sum_def)
next
  case (Cons t df)
  with total_inflows_Cons [of t df] show ?case by simp
qed

text \<open>
  Claim C6, as amended. The forecaster's inflow total is over exactly the transactions
  whose type is \<^verbatim>\<open>Payment\<close> or \<^verbatim>\<open>Receipt\<close> (not \<^verbatim>\<open>Deposit\<close>), that are not from the house
  accounts CSL and VEEM, and that have a date: a transaction of the table is among the
  customer payments if and only if it is one of these, and the total is the sum over the
  table of each such transaction's absolute amount.
\<close>

theorem inflow_transactions:
  "(t \<in> set (customer_payments df) \<longleftrightarrow>
      t \<in> set df \<and> (transaction_type t = ''Payment'' \<or> transaction_type t = ''Receipt'') \<and>
      customer_name t \<noteq> Some ''CSL'' \<and> customer_name t \<noteq> Some ''VEEM'' \<and>
      txn_date t \<noteq> None) \<and>
   total_inflows df = sum_list (map inflow_contribution df)"
  using customer_payments_iff [of t df] total_inflows_sum [of df] by simp

text \<open>
  The claim as stated fails: a dated deposit of a customer that is no house account is
  not among the customer payments, and adding it to a table changes neither the total
  nor the rates.
\<close>

theorem inflow_transactions_counterexample:
  "transaction_type beta_deposit \<in> set [''Payment'', ''Deposit'', ''Receipt''] \<and>
   \<not> isin (customer_name beta_deposit) [''CSL'', ''VEEM''] \<and>
   beta_deposit \<in> set [acme_payment, beta_deposit] \<and>
   beta_deposit \<notin> set (customer_payments [acme_payment, beta_deposit]) \<and>
   total_inflows [acme_payment, beta_deposit] = 100 \<and>
   total_inflows [acme_payment] = 100 \<and>
   inflow_rates (Some [acme_payment, beta_deposit]) = inflow_rates (Some [acme_payment]) \<and>
   inflow_rates (Some [beta_deposit]) = (0, 0, False)"
  by (simp add: customer_payments_def acme_payment_def beta_deposit_def isin_def
        total_inflows_def series_sum_def inflow_rates_def Let_def)

section \<open>Properties of the risk scorer\<close>

subsection \<open>The payment ratio\<close>

lemma payment_ratio_cases:
  "payment_ratio r = (if Invoice r > 0 then Fin (Payment r / Invoice r) else Fin 0)"
  by (simp add: payment_ratio_def np_where_def)

lemma payment_ratio_finite: "\<exists>x. payment_ratio r = Fin x"
  by (simp add: payment_ratio_cases)

text \<open>
  Claim C7. For every customer row with \<open>Invoice = 0\<close> the payment ratio is exactly 0: a
  finite number, not NaN and not an infinity. (The quotient \<^verbatim>\<open>Payment / Invoice\<close> that
  \<^verbatim>\<open>np.where\<close> discards is NaN or an infinity there; the division does not raise.)
\<close>

theorem payment_ratio_zero_invoices:
  "Invoice r = 0 \<Longrightarrow> payment_ratio r = Fin 0"
  by (simp add: payment_ratio_def np_where_def)

theorem payment_ratio_zero_invoices_witness:
  "payment_behavior [acme_invoice, acme_payment, beta_payment] = Some [acme_paid, beta_row] \<and>
   Invoice beta_row = 0 \<and>
   pf_div (Fin (Payment beta_row)) (Fin (Invoice beta_row)) = PosInf \<and>
   payment_ratio beta_row = Fin 0"
proof -
  have t: "payment_behavior [acme_invoice, acme_payment, beta_payment]
             = Some [acme_paid, beta_row]"
    by (simp add: payment_behavior_def risk_df_def isin_def acme_invoice_def acme_payment_def
          beta_payment_def pivot_sum_def series_sum_def List.map_filter_def acme_paid_def
          beta_row_def)
  have z: "Invoice beta_row = 0" by (simp add: beta_row_def)
  have q: "pf_div (Fin (Payment beta_row)) (Fin (Invoice beta_row)) = PosInf"
    by (simp add: beta_row_def inf_of_sign_def)
  from payment_ratio_zero_invoices [OF z] t z q show ?thesis by simp
qed

subsection \<open>The score is at most 1\<close>

lemma series_sum_nonneg:
  assumes "\<And>a. Some a \<in> set xs \<Longrightarrow> 0 \<le> a"
  shows "0 \<le> series_sum xs"
  unfolding series_sum_def
  by (rule sum_list_nonneg) (auto split: option.splits dest: assms)

lemma risk_df_amount_nonneg:
  "t \<in> set (risk_df df) \<Longrightarrow> total_amount t = Some a \<Longrightarrow> 0 \<le> a"
  by (auto simp: risk_df_def)

lemma pivot_sum_nonneg: "0 \<le> pivot_sum (filter P (risk_df df)) c ty"
  unfolding pivot_sum_def
  by (rule series_sum_nonneg) (auto dest: risk_df_amount_nonneg [OF _ sym])

lemma payment_behavior_nonneg:
  assumes "payment_behavior df = Some pb" and "r \<in> set pb"
  shows "0 \<le> Invoice r \<and> 0 \<le> Payment r"
  using assms
  by (auto simp: payment_behavior_def Let_def pivot_sum_nonneg split: if_splits)

lemma series_max_bound:
  assumes "x \<in> set xs"
  shows "\<exists>m. series_max xs = Fin m \<and> x \<le> m"
proof (cases xs)
  case Nil
  with assms show ?thesis by simp
next
  case (Cons y ys)
  have "fold max ys y = Max (set (y # ys))" by (simp only: Max.set_eq_fold)
  moreover have "x \<le> Max (set (y # ys))" using assms Cons by (intro Max_ge) simp_all
  ultimately show ?thesis using Cons by simp
qed

text \<open>With a positive largest invoice total the score is the finite formula.\<close>

lemma risk_score_finite:
  assumes "series_max (map Invoice pb) = Fin m" and "m \<noteq> 0"
  shows "risk_score pb r =
           Fin ((1 - (if Invoice r > 0 then Payment r / Invoice r else 0)) * 0.4
                + (outstanding_balance r / m) * 0.3
                + (if (if Invoice r > 0 then Payment r / Invoice r else 0) < 0.5
                   then 0.3 else 0))"
  using assms by (simp add: risk_score_def payment_ratio_cases pf_sub_def np_where_def)

text \<open>When every invoice total is 0, the relative balance is a division by zero.\<close>

lemma risk_score_zero_max:
  assumes "series_max (map Invoice pb) = Fin 0" and "Invoice r = 0" and "0 \<le> Payment r"
  shows "risk_score pb r = NegInf \<or> risk_score pb r = NaN"
  using assms
  by (simp add: risk_score_def payment_ratio_cases pf_sub_def np_where_def
        outstanding_balance_def inf_of_sign_def sgn_real_def)

lemma score_arith:
  fixes a b :: real
  assumes "0 \<le> a" and "b \<le> 1"
  shows "\<not> 1 < (1 - a) * 0.4 + b * 0.3 + (if a < 0.5 then 0.3 else 0)"
proof (cases "a < 0.5")
  case True
  have "(1 - a) * 0.4 + b * 0.3 + 0.3 \<le> 1" using assms by argo
  with True show ?thesis by simp
next
  case False
  then have "(1 - a) * 0.4 + b * 0.3 \<le> 1" using assms by argo
  with False show ?thesis by simp
qed

lemma risk_score_row_bound:
  assumes "0 \<le> Invoice r" and "0 \<le> Payment r"
    and "series_max (map Invoice pb) = Fin m" and "Invoice r \<le> m"
  shows "\<not> pf_lt (Fin 1) (risk_score pb r)"
proof (cases "m = 0")
  case True
  with assms have "Invoice r = 0" by simp
  from risk_score_zero_max [OF assms(3) [unfolded True] this assms(2)]
  show ?thesis by auto
next
  case False
  with assms have m: "0 < m" by simp
  have bal: "outstanding_balance r / m \<le> 1"
    using assms m by (simp add: outstanding_balance_def)
  have ratio: "0 \<le> (if Invoice r > 0 then Payment r / Invoice r else 0)"
    using assms(1,2) by simp
  from score_arith [OF ratio bal] show ?thesis
    unfolding risk_score_finite [OF assms(3) False] pf_lt.simps .
qed

lemma risk_score_le_one:
  assumes "payment_behavior df = Some pb" and "r \<in> set pb"
  shows "\<not> pf_lt (Fin 1) (risk_score pb r)"
proof -
  from assms(2) have "Invoice r \<in> set (map Invoice pb)" by simp
  from series_max_bound [OF this] obtain m
    where "series_max (map Invoice pb) = Fin m" "Invoice r \<le> m" by blast
  with payment_behavior_nonneg [OF assms] show ?thesis
    by (intro risk_score_row_bound) simp_all
qed

lemma unpaid_table:
  "payment_behavior [acme_invoice, beta_payment] = Some [acme_unpaid, beta_row]"
  by (simp add: payment_behavior_def risk_df_def isin_def acme_invoice_def beta_payment_def
        pivot_sum_def series_sum_def List.map_filter_def acme_unpaid_def beta_row_def)

lemma unpaid_score: "risk_score [acme_unpaid, beta_row] acme_unpaid = Fin 1"
  by (simp add: risk_score_def payment_ratio_cases pf_sub_def np_where_def
        outstanding_balance_def acme_unpaid_def beta_row_def)

text \<open>
  Claim C4, as amended. For every transaction table and every customer of its
  \<^verbatim>\<open>payment_behavior\<close> table the risk score does not exceed 1.0 (it is at most 1.0, or
  minus infinity or NaN when every invoice total is 0). The value 1.0 itself is reached,
  by a customer without payments who holds the largest invoice total.
\<close>

theorem risk_score_at_most_one:
  "(payment_behavior df = Some pb \<and> r \<in> set pb \<longrightarrow> \<not> pf_lt (Fin 1) (risk_score pb r)) \<and>
   (\<exists>df' pb' r'. payment_behavior df' = Some pb' \<and> r' \<in> set pb' \<and> risk_score pb' r' = Fin 1)"
proof (intro conjI impI)
  assume "payment_behavior df = Some pb \<and> r \<in> set pb"
  then show "\<not> pf_lt (Fin 1) (risk_score pb r)"
    using risk_score_le_one [of df pb r] by simp
next
  have "acme_unpaid \<in> set [acme_unpaid, beta_row]" by simp
  with unpaid_table unpaid_score
  show "\<exists>df' pb' r'. payment_behavior df' = Some pb' \<and> r' \<in> set pb' \<and> risk_score pb' r' = Fin 1"
    by blast
qed

theorem risk_score_at_most_one_witness:
  "payment_behavior [acme_invoice, acme_payment, beta_payment] = Some [acme_paid, beta_row] \<and>
   beta_row \<in> set [acme_paid, beta_row] \<and>
   risk_score [acme_paid, beta_row] beta_row = Fin 0.55 \<and>
   \<not> pf_lt (Fin 1) (risk_score [acme_paid, beta_row] beta_row)"
proof -
  have t: "payment_behavior [acme_invoice, acme_payment, beta_payment]
             = Some [acme_paid, beta_row]"
    by (simp add: payment_behavior_def risk_df_def isin_def acme_invoice_def acme_payment_def
          beta_payment_def pivot_sum_def series_sum_def List.map_filter_def acme_paid_def
          beta_row_def)
  have m: "beta_row \<in> set [acme_paid, beta_row]" by simp
  have s: "risk_score [acme_paid, beta_row] beta_row = Fin 0.55"
    by (simp add: risk_score_def payment_ratio_cases pf_sub_def np_where_def
          outstanding_balance_def acme_paid_def beta_row_def)
  from risk_score_at_most_one
         [where df = "[acme_invoice, acme_payment, beta_payment]"
            and pb = "[acme_paid, beta_row]" and r = beta_row]
    t m s show ?thesis by simp
qed

text \<open>The claim as stated fails: no input gives a score above 1.0.\<close>

theorem risk_score_above_one_counterexample:
  "\<not> (\<exists>df pb r. payment_behavior df = Some pb \<and> r \<in> set pb \<and> pf_lt (Fin 1) (risk_score pb r))"
  using risk_score_le_one by blast

subsection \<open>Categories\<close>

lemma cut_Some_iff:
  "cut x = Some c \<longleftrightarrow>
     (\<exists>s. x = Fin s \<and>
        (c = Low_Risk \<and> 0 < s \<and> s \<le> 0.2 \<or>
         c = Medium_Risk \<and> 0.2 < s \<and> s \<le> 0.5 \<or>
         c = High_Risk \<and> 0.5 < s \<and> s \<le> 1.0))"
  by (cases x) (auto simp: cut_def)

lemma cut_None_iff: "cut x = None \<longleftrightarrow> (\<forall>s. x = Fin s \<longrightarrow> s \<le> 0 \<or> 1 < s)"
  by (cases x) (auto simp: cut_def)

text \<open>
  Claim C3, on the code. A customer whose invoices are paid in full has score 0, and the
  score 0 is given no category: the lowest bin \<open>(0, 0.2]\<close> is open at 0. The claim asks
  for Low Risk there.
\<close>

theorem paid_in_full_has_no_category:
  "payment_behavior [acme_invoice, acme_payment] = Some [acme_paid] \<and>
   payment_ratio acme_paid = Fin 1 \<and>
   risk_score [acme_paid] acme_paid = Fin 0 \<and>
   risk_category [acme_paid] acme_paid = None"
proof -
  have t: "payment_behavior [acme_invoice, acme_payment] = Some [acme_paid]"
    by (simp add: payment_behavior_def risk_df_def isin_def acme_invoice_def acme_payment_def
          pivot_sum_def series_sum_def List.map_filter_def acme_paid_def)
  have p: "payment_ratio acme_paid = Fin 1"
    by (simp add: payment_ratio_cases acme_paid_def)
  have s: "risk_score [acme_paid] acme_paid = Fin 0"
    by (simp add: risk_score_def payment_ratio_cases pf_sub_def np_where_def
          outstanding_balance_def acme_paid_def)
  have c: "risk_category [acme_paid] acme_paid = None"
    by (simp add: risk_category_def s cut_def)
  from t p s c show ?thesis by simp
qed

section \<open>Properties of the join\<close>

lemma combine_deals_keys:
  assumes "(d, m) \<in> set (combine_deals deals mca)"
  shows "loan_id d \<noteq> None \<and> loan_id d = deal_number m"
  using assms by (auto simp: combine_deals_def Let_def)

text \<open>
  A null \<^verbatim>\<open>deal_number\<close> is not dropped: as the text \<^verbatim>\<open>None\<close> it matches a deal whose
  loan id is that text.
\<close>

lemma null_deal_number_joined:
  "combine_deals [\<lparr>loan_id = Some ''None'', date_created = None, amount = None\<rparr>]
                 [\<lparr>deal_number = None\<rparr>]
     = [(\<lparr>loan_id = Some ''None'', date_created = None, amount = None\<rparr>,
         \<lparr>deal_number = Some ''None''\<rparr>)]"
  by (simp add: combine_deals_def astype_str_def)

text \<open>
  Claim C9, on the code. Only null loan ids of deals are dropped before the join. A deal
  whose loan id is the empty string is joined to an MCA deal whose deal number is the
  empty string: the output has a row whose loan identifier is missing on both sides, in
  the sense of the audit page.
\<close>

theorem empty_loan_ids_are_joined:
  "combine_deals [blank_deal] [blank_mca] = [(blank_deal, blank_mca)] \<and>
   missing_loan_id (loan_id blank_deal) \<and> missing_loan_id (deal_number blank_mca)"
  by (simp add: combine_deals_def blank_deal_def blank_mca_def astype_str_def
        missing_loan_id_def)

end
